theory Spec2Isabelle
  imports Main
begin

section \<open>Request values\<close>

text \<open>
  The request body is parsed JSON. A property that is absent from the body reads as
  \<open>undefined\<close>; numbers are restricted to integers here (no claim depends on a
  fraction, and every non-zero number is truthy either way).
\<close>

datatype json =
    JUndefined
  | JNull
  | JBool bool
  | JNum int
  | JStr string
  | JArr "json list"
  | JObj "(string \<times> json) list"

text \<open>JavaScript truthiness, as used by \<open>if (x)\<close>, \<open>!x\<close> and \<open>x || y\<close>.\<close>

fun truthy :: "json \<Rightarrow> bool" where
  "truthy JUndefined = False"
| "truthy JNull = False"
| "truthy (JBool b) = b"
| "truthy (JNum n) = (n \<noteq> 0)"
| "truthy (JStr s) = (s \<noteq> [])"
| "truthy (JArr xs) = True"
| "truthy (JObj fs) = True"

text \<open>A destructuring default \<open>{ x = d } = obj\<close> applies only when \<open>x\<close> is undefined.\<close>

definition default_to :: "json \<Rightarrow> json \<Rightarrow> json" where
  "default_to d v = (if v = JUndefined then d else v)"

section \<open>Frame dimensions\<close>

definition dims :: "int \<Rightarrow> int \<Rightarrow> json" where
  "dims w h = JObj [(''width'', JNum w), (''height'', JNum h)]"

text \<open>
  Step 2 of the \<open>/api/generate-video\<close> handler: the \<open>if (customDimensions)\<close>
  test followed by the \<open>switch (orientation)\<close>, whose \<open>case\<close> labels compare with
  strict equality and whose \<open>default\<close> shares the landscape branch.
\<close>

definition select_dimensions :: "json \<Rightarrow> json \<Rightarrow> json" where
  "select_dimensions customDimensions orientation =
     (if truthy customDimensions then customDimensions
      else if orientation = JStr ''portrait'' then dims 720 1280
      else if orientation = JStr ''square'' then dims 1080 1080
      else dims 1280 720)"

section \<open>Credential pool\<close>

text \<open>
  \<open>keyUsageCount\<close> is a plain object indexed by the key string itself, so a counter
  belongs to a key string, not to a position of \<open>HEYGEN_KEYS\<close>. A missing entry reads
  as \<open>undefined\<close>, which \<open>(keyUsageCount[key] || 0)\<close> turns into 0.
\<close>

type_synonym usage = "string \<rightharpoonup> nat"

definition usage_of :: "usage \<Rightarrow> string \<Rightarrow> nat" where
  "usage_of keyUsageCount key = (case keyUsageCount key of None \<Rightarrow> 0 | Some n \<Rightarrow> n)"

text \<open>The \<open>for\<close> loop of \<open>getNextHeyGenKey\<close>; \<open>None\<close> when it falls through.\<close>

fun scan_keys :: "string list \<Rightarrow> usage \<Rightarrow> (string \<times> usage) option" where
  "scan_keys [] keyUsageCount = None"
| "scan_keys (key # keys) keyUsageCount =
     (if usage_of keyUsageCount key < 10
      then Some (key, keyUsageCount(key \<mapsto> usage_of keyUsageCount key + 1))
      else scan_keys keys keyUsageCount)"

text \<open>
  The returned key is \<open>None\<close> for JavaScript's \<open>undefined\<close>: with an empty pool
  \<open>HEYGEN_KEYS[0]\<close> is undefined, the reset stores the counter under the property
  name \<open>"undefined"\<close> and the function returns undefined.
\<close>

definition getNextHeyGenKey :: "string list \<Rightarrow> usage \<Rightarrow> string option \<times> usage" where
  "getNextHeyGenKey HEYGEN_KEYS keyUsageCount =
     (case scan_keys HEYGEN_KEYS keyUsageCount of
        Some (key, keyUsageCount') \<Rightarrow> (Some key, keyUsageCount')
      | None \<Rightarrow>
          (case HEYGEN_KEYS of
             [] \<Rightarrow> (None, Map.empty(''undefined'' \<mapsto> 1))
           | key0 # _ \<Rightarrow> (Some key0, Map.empty(key0 \<mapsto> 1))))"


section \<open>The watermark crop\<close>

text \<open>
  \<open>removeWatermark\<close> hands ffmpeg the video filter \<open>crop=iw-150:ih-80:0:0\<close>. The
  four fields of a crop filter are, in this order, the width and the height of the
  output and the position of its top-left corner in the input, each an expression over
  the input width \<open>iw\<close> and the input height \<open>ih\<close>.
\<close>

datatype crop_expr = Iw | Ih | Const int | Minus crop_expr crop_expr

record crop_filter =
  out_w :: crop_expr
  out_h :: crop_expr
  crop_x :: crop_expr
  crop_y :: crop_expr

definition watermark_crop :: crop_filter where
  "watermark_crop =
     \<lparr>out_w = Minus Iw (Const 150), out_h = Minus Ih (Const 80),
      crop_x = Const 0, crop_y = Const 0\<rparr>"




section \<open>Accounts and the ledger (middleware/limits.js)\<close>

text \<open>
  A user document of the \<open>users\<close> collection, reduced to the fields that
  \<open>limits.js\<close> reads or writes. A field may be missing: the document that
  \<open>verifyToken\<close> creates has no \<open>credits\<close> field at all.
\<close>

record account =
  credits :: "int option"
  creditsUsed :: "int option"
  videosGenerated :: "int option"
  lastVideoGenerated :: "nat option"
  scriptsGenerated :: "int option"
  lastScriptGenerated :: "nat option"

definition CREDITS_PER_VIDEO :: int where
  "CREDITS_PER_VIDEO = 20"

text \<open>
  The number a numeric field stands for: \<open>userData?.credits || 0\<close> on the reading
  side, and the start value \<open>FieldValue.increment\<close> takes for a missing field.
\<close>

definition num :: "int option \<Rightarrow> int" where
  "num v = (case v of None \<Rightarrow> 0 | Some n \<Rightarrow> n)"

definition increment :: "int \<Rightarrow> int option \<Rightarrow> int option" where
  "increment n v = Some (num v + n)"

definition userCredits :: "(string \<rightharpoonup> account) \<Rightarrow> string \<Rightarrow> int" where
  "userCredits users_coll userId =
     (case users_coll userId of None \<Rightarrow> 0 | Some userData \<Rightarrow> num (credits userData))"

text \<open>
  \<open>updateUsage\<close>. \<open>update_throws\<close> says whether the store rejects the write;
  \<open>userRef.update\<close> also rejects when the document does not exist. Either way the
  \<open>catch\<close> only logs, so the caller never sees a failure.
\<close>

definition updateUsage ::
  "nat \<Rightarrow> bool \<Rightarrow> string \<Rightarrow> string \<Rightarrow> (string \<rightharpoonup> account) \<Rightarrow> (string \<rightharpoonup> account)" where
  "updateUsage serverTimestamp update_throws userId type users_coll =
     (if type = ''video'' then
        (case users_coll userId of
           None \<Rightarrow> users_coll
         | Some a \<Rightarrow>
             if update_throws then users_coll
             else users_coll(userId \<mapsto> a\<lparr>
                    credits := increment (- CREDITS_PER_VIDEO) (credits a),
                    creditsUsed := increment CREDITS_PER_VIDEO (creditsUsed a),
                    videosGenerated := increment 1 (videosGenerated a),
                    lastVideoGenerated := Some serverTimestamp\<rparr>))
      else if type = ''script'' then
        (case users_coll userId of
           None \<Rightarrow> users_coll
         | Some a \<Rightarrow>
             if update_throws then users_coll
             else users_coll(userId \<mapsto> a\<lparr>
                    scriptsGenerated := increment 1 (scriptsGenerated a),
                    lastScriptGenerated := Some serverTimestamp\<rparr>))
      else users_coll)"

section \<open>The world outside the process\<close>

text \<open>
  A thrown value: an axios error that carries \<open>error.response\<close> (status and body), or
  any other \<open>Error\<close> with its message.
\<close>

datatype exn = HttpError nat json | PlainError string

record poll_status =
  status :: string
  video_url :: json

datatype write_outcome = WriteFinished | WriteError string bool

datatype ffmpeg_outcome = FfmpegEnd | FfmpegError string bool

text \<open>
  What the collaborators answer during one request. \<open>status_response e i\<close> is the
  answer to the status query of loop iteration \<open>i\<close> (counted from 0). The flag of
  \<open>WriteError\<close> and \<open>FfmpegError\<close> says whether the output file was left on disk.
\<close>

record env =
  serverTimestamp :: nat
  users_get_throws :: bool
  generate_response :: "exn + string"
  status_response :: "nat \<Rightarrow> exn + poll_status"
  download_response :: "exn option"
  write_result :: write_outcome
  uuid_temp :: string
  uuid_clean :: string
  ffmpeg_result :: ffmpeg_outcome
  catbox_response :: "exn + string"
  videos_set :: "string + string"
  users_update_throws :: bool

text \<open>Effects on the outside world, in the order in which the handler causes them.\<close>

datatype event =
    HeyGenGenerate string json json json json
  | Wait nat
  | HeyGenStatus string string
  | Download json
  | Ffmpeg string crop_filter string
  | CatboxUpload string
  | UpdateUsage string string

record state =
  keyUsageCount :: usage
  users :: "string \<rightharpoonup> account"
  videos :: "(string \<times> json) list"
  files :: "string set"
  trace :: "event list"

section \<open>The request and its responses\<close>

record decoded_token =
  uid :: string
  email :: string

record body =
  script :: json
  avatar :: json
  voice :: json
  orientation :: json
  customDimensions :: json
  templateId :: json
  customAssets :: json

record request =
  user :: "decoded_token option"
  body :: body

datatype response =
    AuthenticationRequired
  | InsufficientCredits int int json
  | FailedToCheckCredits
  | ScriptAndAvatarRequired
  | NoApiKeysAvailable
  | GenerationTimeout
  | HeyGenApiError nat json
  | InternalServerError string
  | Success string string

fun status_code :: "response \<Rightarrow> nat" where
  "status_code AuthenticationRequired = 401"
| "status_code (InsufficientCredits currentCredits creditsNeeded options) = 403"
| "status_code FailedToCheckCredits = 500"
| "status_code ScriptAndAvatarRequired = 400"
| "status_code NoApiKeysAvailable = 503"
| "status_code GenerationTimeout = 408"
| "status_code (HeyGenApiError st details) = st"
| "status_code (InternalServerError message) = 500"
| "status_code (Success videoId videoUrl) = 200"

text \<open>The \<open>upgradeOptions\<close> of the 403 body, without their message texts.\<close>

definition upgradeOptions :: json where
  "upgradeOptions = JObj
     [(''buyCredits'', JObj [(''price'', JNum 80), (''credits'', JNum 20)]),
      (''basicPlan'', JObj [(''price'', JNum 899), (''credits'', JNum 400)])]"

text \<open>
  \<open>checkVideoLimits\<close>: \<open>Inl\<close> is the response it sends itself, \<open>Inr\<close> is
  \<open>next()\<close> with the authenticated user. It runs after \<open>verifyToken\<close>, which belongs
  to authentication and is not modelled; the state here is the one \<open>verifyToken\<close>
  left. The \<open>req.credits\<close> it attaches is never read by the handler.
\<close>

definition checkVideoLimits :: "env \<Rightarrow> request \<Rightarrow> state \<Rightarrow> response + decoded_token" where
  "checkVideoLimits e req s =
     (case user req of
        None \<Rightarrow> Inl AuthenticationRequired
      | Some u \<Rightarrow>
          if users_get_throws e then Inl FailedToCheckCredits
          else if userCredits (users s) (uid u) < CREDITS_PER_VIDEO
          then Inl (InsufficientCredits (userCredits (users s) (uid u)) CREDITS_PER_VIDEO upgradeOptions)
          else Inr u)"

section \<open>The poll loop\<close>

definition maxAttempts :: nat where
  "maxAttempts = 60"

datatype poll_step = Break json | Fallthrough

text \<open>
  The \<open>try\<close> block inside the loop. The \<open>throw\<close> of the \<open>failed\<close> branch is inside
  that block, so it leaves through \<open>Inl\<close> like an error of the status query.
\<close>

definition poll_try :: "exn + poll_status \<Rightarrow> exn + poll_step" where
  "poll_try statusResponse =
     (case statusResponse of
        Inl err \<Rightarrow> Inl err
      | Inr st \<Rightarrow>
          if status st = ''completed'' then Inr (Break (video_url st))
          else if status st = ''failed'' then Inl (PlainError ''HeyGen video generation failed'')
          else Inr Fallthrough)"

text \<open>
  The \<open>while\<close> loop, entered with \<open>videoUrl = null\<close>. \<open>catch (pollError)\<close> logs and
  falls through to \<open>attempts++\<close>. The result is \<open>videoUrl\<close> and \<open>attempts\<close> at the
  exit of the loop.
\<close>

function poll_loop :: "env \<Rightarrow> string \<Rightarrow> string \<Rightarrow> nat \<Rightarrow> state \<Rightarrow> json \<times> nat \<times> state" where
  "poll_loop e apiKey videoId attempts s =
     (if attempts < maxAttempts then
        (case poll_try (status_response e attempts) of
           Inr (Break url) \<Rightarrow>
             (url, attempts, s\<lparr>trace := trace s @ [Wait 5000, HeyGenStatus apiKey videoId]\<rparr>)
         | Inr Fallthrough \<Rightarrow>
             poll_loop e apiKey videoId (attempts + 1)
               (s\<lparr>trace := trace s @ [Wait 5000, HeyGenStatus apiKey videoId]\<rparr>)
         | Inl pollError \<Rightarrow>
             poll_loop e apiKey videoId (attempts + 1)
               (s\<lparr>trace := trace s @ [Wait 5000, HeyGenStatus apiKey videoId]\<rparr>))
      else (JNull, attempts, s))"
  by pat_completeness auto
termination
  by (relation "measure (\<lambda>(e, apiKey, videoId, attempts, s). maxAttempts - attempts)") auto

declare poll_loop.simps [simp del]

section \<open>The handler of POST /api/generate-video\<close>

text \<open>\<open>path.join\<close> for a directory and a file name (no normalisation of the directory).\<close>

definition path_join :: "string \<Rightarrow> string \<Rightarrow> string" where
  "path_join dir name = dir @ ''/'' @ name"

definition tempVideoPath :: "string \<Rightarrow> env \<Rightarrow> string" where
  "tempVideoPath outputDir e = path_join outputDir (''temp-'' @ uuid_temp e @ ''.mp4'')"

definition cleanVideoPath :: "string \<Rightarrow> env \<Rightarrow> string" where
  "cleanVideoPath outputDir e = path_join outputDir (''clean-'' @ uuid_clean e @ ''.mp4'')"

text \<open>
  \<open>storeVideoUrl\<close>: the document written is \<open>videoData\<close> with \<open>createdAt\<close> and
  \<open>status\<close> added; an error of the store (which has no \<open>response\<close>) is thrown
  again.
\<close>

definition storeVideoUrl :: "env \<Rightarrow> (string \<times> json) list \<Rightarrow> state \<Rightarrow> (exn + string) \<times> state" where
  "storeVideoUrl e videoData s =
     (case videos_set e of
        Inl message \<Rightarrow> (Inl (PlainError message), s)
      | Inr docId \<Rightarrow>
          (Inr docId,
           s\<lparr>videos := videos s @
                [(docId, JObj (videoData @
                    [(''createdAt'', JNum (int (serverTimestamp e))),
                     (''status'', JStr ''completed'')]))]\<rparr>))"

text \<open>
  \<open>removeWatermark\<close>: the promise resolves with the output path on ffmpeg's
  \<open>end\<close> event and rejects with the error on its \<open>error\<close> event. Nothing in it
  touches the input file.
\<close>

definition removeWatermark :: "env \<Rightarrow> string \<Rightarrow> string \<Rightarrow> state \<Rightarrow> (exn + string) \<times> state" where
  "removeWatermark e inputPath outputPath s =
     (let s1 = s\<lparr>trace := trace s @ [Ffmpeg inputPath watermark_crop outputPath]\<rparr> in
      case ffmpeg_result e of
        FfmpegEnd \<Rightarrow> (Inr outputPath, s1\<lparr>files := insert outputPath (files s1)\<rparr>)
      | FfmpegError msg left \<Rightarrow>
          (Inl (PlainError msg),
           if left then s1\<lparr>files := insert outputPath (files s1)\<rparr> else s1))"

text \<open>\<open>uploadToCatbox\<close> replaces whatever went wrong by an \<open>Error\<close> of its own.\<close>

definition uploadToCatbox :: "env \<Rightarrow> string \<Rightarrow> state \<Rightarrow> (exn + string) \<times> state" where
  "uploadToCatbox e videoPath s =
     (let s1 = s\<lparr>trace := trace s @ [CatboxUpload videoPath]\<rparr> in
      case catbox_response e of
        Inl error \<Rightarrow> (Inl (PlainError ''Failed to upload video to Catbox''), s1)
      | Inr videoUrl \<Rightarrow> (Inr videoUrl, s1))"

text \<open>
  Steps 4 to 9, from the download to the response. \<open>Inl\<close> is a value thrown to the
  handler's \<open>catch\<close>. The write stream creates the temporary file. \<open>fs.removeSync\<close>
  does nothing for a missing path and is taken not to fail for an existing one.
\<close>

definition process_and_publish ::
  "string \<Rightarrow> env \<Rightarrow> decoded_token \<Rightarrow> (string \<times> json) list \<Rightarrow> json \<Rightarrow> state
     \<Rightarrow> (exn + response) \<times> state" where
  "process_and_publish outputDir e u params videoUrl s =
     (let s1 = s\<lparr>trace := trace s @ [Download videoUrl]\<rparr> in
      case download_response e of
        Some err \<Rightarrow> (Inl err, s1)
      | None \<Rightarrow>
          (case write_result e of
             WriteError msg left \<Rightarrow>
               (Inl (PlainError msg),
                if left then s1\<lparr>files := insert (tempVideoPath outputDir e) (files s1)\<rparr> else s1)
           | WriteFinished \<Rightarrow>
               (case removeWatermark e (tempVideoPath outputDir e) (cleanVideoPath outputDir e)
                       (s1\<lparr>files := insert (tempVideoPath outputDir e) (files s1)\<rparr>) of
                  (Inl err, s2) \<Rightarrow> (Inl err, s2)
                | (Inr cleanPath, s2) \<Rightarrow>
                    (case uploadToCatbox e (cleanVideoPath outputDir e) s2 of
                       (Inl err, s3) \<Rightarrow> (Inl err, s3)
                     | (Inr catboxUrl, s3) \<Rightarrow>
                         (case storeVideoUrl e
                                 ([(''userId'', JStr (uid u)), (''userEmail'', JStr (email u)),
                                   (''originalUrl'', videoUrl), (''processedUrl'', JStr catboxUrl)]
                                  @ params) s3 of
                            (Inl err, s4) \<Rightarrow> (Inl err, s4)
                          | (Inr storedVideoId, s4) \<Rightarrow>
                              (let s5 = s4\<lparr>users := updateUsage (serverTimestamp e)
                                                      (users_update_throws e) (uid u) ''video'' (users s4),
                                           trace := trace s4 @ [UpdateUsage (uid u) ''video'']\<rparr>;
                                   s6 = s5\<lparr>files := files s5 - {tempVideoPath outputDir e}
                                                               - {cleanVideoPath outputDir e}\<rparr>
                               in (Inr (Success storedVideoId catboxUrl), s6)))))))"

text \<open>
  The body of the handler's \<open>try\<close>, steps 1 to 3 followed by the rest. A key is
  falsy when it is undefined or the empty string.
\<close>

definition try_body ::
  "string list \<Rightarrow> string \<Rightarrow> env \<Rightarrow> decoded_token \<Rightarrow> body \<Rightarrow> state \<Rightarrow> (exn + response) \<times> state" where
  "try_body HEYGEN_KEYS outputDir e u b s =
     (let voice' = default_to (JStr ''1bd001e7e50f421d891986aad5158bc8'') (voice b);
          orientation' = default_to (JStr ''landscape'') (orientation b);
          customDimensions' = default_to JNull (customDimensions b);
          templateId' = default_to JNull (templateId b);
          customAssets' = default_to (JArr []) (customAssets b)
      in
      if \<not> truthy (script b) \<or> \<not> truthy (avatar b) then (Inr ScriptAndAvatarRequired, s)
      else
        (case getNextHeyGenKey HEYGEN_KEYS (keyUsageCount s) of
           (None, usage') \<Rightarrow> (Inr NoApiKeysAvailable, s\<lparr>keyUsageCount := usage'\<rparr>)
         | (Some apiKey, usage') \<Rightarrow>
             if apiKey = [] then (Inr NoApiKeysAvailable, s\<lparr>keyUsageCount := usage'\<rparr>)
             else
               (let dimensions = select_dimensions customDimensions' orientation';
                    s1 = s\<lparr>keyUsageCount := usage',
                            trace := trace s @
                              [HeyGenGenerate apiKey dimensions (avatar b) (script b) voice']\<rparr>
                in
                case generate_response e of
                  Inl err \<Rightarrow> (Inl err, s1)
                | Inr videoId \<Rightarrow>
                    (case poll_loop e apiKey videoId 0 s1 of
                       (videoUrl, attempts, s2) \<Rightarrow>
                         if \<not> truthy videoUrl then (Inr GenerationTimeout, s2)
                         else process_and_publish outputDir e u
                                [(''script'', script b), (''avatar'', avatar b), (''voice'', voice'),
                                 (''orientation'', orientation'), (''dimensions'', dimensions),
                                 (''duration'', JStr ''~45 seconds''), (''storage'', JStr ''Catbox.moe''),
                                 (''type'', JStr ''custom''),
                                 (''templateId'', if truthy templateId' then templateId' else JNull),
                                 (''customAssets'', if truthy customAssets' then customAssets' else JArr []),
                                 (''aiGenerated'', JBool False)]
                                videoUrl s2))))"

text \<open>The handler: the \<open>try\<close> body and the \<open>catch\<close> that turns a thrown value into a response.\<close>

definition catch_error :: "exn \<Rightarrow> response" where
  "catch_error error =
     (case error of
        HttpError st details \<Rightarrow> HeyGenApiError st details
      | PlainError message \<Rightarrow> InternalServerError message)"

definition generate_video ::
  "string list \<Rightarrow> string \<Rightarrow> env \<Rightarrow> decoded_token \<Rightarrow> body \<Rightarrow> state \<Rightarrow> response \<times> state" where
  "generate_video HEYGEN_KEYS outputDir e u b s =
     (case try_body HEYGEN_KEYS outputDir e u b s of
        (Inl error, s') \<Rightarrow> (catch_error error, s')
      | (Inr res, s') \<Rightarrow> (res, s'))"

text \<open>The route: \<open>checkVideoLimits\<close>, then the handler.\<close>

definition post_generate_video ::
  "string list \<Rightarrow> string \<Rightarrow> env \<Rightarrow> request \<Rightarrow> state \<Rightarrow> response \<times> state" where
  "post_generate_video HEYGEN_KEYS outputDir e req s =
     (case checkVideoLimits e req s of
        Inl res \<Rightarrow> (res, s)
      | Inr u \<Rightarrow> generate_video HEYGEN_KEYS outputDir e u (body req) s)"

section \<open>Observations on a run\<close>

text \<open>The events of \<open>n\<close> iterations of the poll loop: a wait of 5000 ms, then the query.\<close>

fun polls :: "nat \<Rightarrow> string \<Rightarrow> string \<Rightarrow> event list" where
  "polls 0 apiKey videoId = []"
| "polls (Suc n) apiKey videoId = [Wait 5000, HeyGenStatus apiKey videoId] @ polls n apiKey videoId"

text \<open>A status answer that reports \<open>completed\<close>, and one that reports a terminal status.\<close>

definition completed :: "exn + poll_status \<Rightarrow> bool" where
  "completed r = (case r of Inl err \<Rightarrow> False | Inr st \<Rightarrow> status st = ''completed'')"

definition terminal :: "exn + poll_status \<Rightarrow> bool" where
  "terminal r =
     (case r of Inl err \<Rightarrow> False | Inr st \<Rightarrow> status st = ''completed'' \<or> status st = ''failed'')"

fun is_success :: "response \<Rightarrow> bool" where
  "is_success (Success videoId videoUrl) = True"
| "is_success res = False"

fun is_insufficient :: "response \<Rightarrow> bool" where
  "is_insufficient (InsufficientCredits currentCredits creditsNeeded options) = True"
| "is_insufficient res = False"

fun is_internal_error :: "response \<Rightarrow> bool" where
  "is_internal_error (InternalServerError message) = True"
| "is_internal_error res = False"

text \<open>The submission event of the handler for a given key and request body.\<close>

definition generate_event :: "string \<Rightarrow> body \<Rightarrow> event" where
  "generate_event apiKey b =
     HeyGenGenerate apiKey
       (select_dimensions (default_to JNull (customDimensions b))
          (default_to (JStr ''landscape'') (orientation b)))
       (avatar b) (script b) (default_to (JStr ''1bd001e7e50f421d891986aad5158bc8'') (voice b))"

text \<open>The frame dimensions of the submissions recorded in a trace.\<close>

fun submitted_dimensions :: "event list \<Rightarrow> json list" where
  "submitted_dimensions [] = []"
| "submitted_dimensions (HeyGenGenerate apiKey dimensions avatarId inputText voiceId # tr) =
     dimensions # submitted_dimensions tr"
| "submitted_dimensions (ev # tr) = submitted_dimensions tr"

text \<open>The number of \<open>updateUsage(uid, 'video')\<close> calls recorded in a trace.\<close>

fun is_video_debit :: "event \<Rightarrow> bool" where
  "is_video_debit (UpdateUsage userId type) = (type = ''video'')"
| "is_video_debit ev = False"


section \<open>Scenarios\<close>

text \<open>
  Concrete inputs: one user \<open>u1\<close> with a given credit balance, one key, a request that
  names a script and an avatar and nothing else, and collaborators that all succeed,
  apart from the answers to the status queries, which each scenario supplies.
\<close>

definition example_account :: "int \<Rightarrow> account" where
  "example_account c =
     \<lparr>credits = Some c, creditsUsed = Some 0, videosGenerated = Some 0,
      lastVideoGenerated = None, scriptsGenerated = None, lastScriptGenerated = None\<rparr>"

definition example_state :: "int \<Rightarrow> state" where
  "example_state c =
     \<lparr>keyUsageCount = Map.empty, users = Map.empty(''u1'' \<mapsto> example_account c),
      videos = [], files = {}, trace = []\<rparr>"

definition example_request :: request where
  "example_request =
     \<lparr>user = Some \<lparr>uid = ''u1'', email = ''u1@example.com''\<rparr>,
      body = \<lparr>script = JStr ''Hello'', avatar = JStr ''avatar1'', voice = JUndefined,
               orientation = JUndefined, customDimensions = JUndefined,
               templateId = JUndefined, customAssets = JUndefined\<rparr>\<rparr>"

definition example_env :: "(nat \<Rightarrow> exn + poll_status) \<Rightarrow> env" where
  "example_env answers =
     \<lparr>serverTimestamp = 1000, users_get_throws = False, generate_response = Inr ''vid1'',
      status_response = answers, download_response = None, write_result = WriteFinished,
      uuid_temp = ''aaaa'', uuid_clean = ''bbbb'', ffmpeg_result = FfmpegEnd,
      catbox_response = Inr ''https://files.catbox.moe/x.mp4'', videos_set = Inr ''doc1'',
      users_update_throws = False\<rparr>"

definition always_failed :: "nat \<Rightarrow> exn + poll_status" where
  "always_failed i = Inr \<lparr>status = ''failed'', video_url = JUndefined\<rparr>"

definition completed_on_third :: "nat \<Rightarrow> exn + poll_status" where
  "completed_on_third i =
     (if i < 2 then Inr \<lparr>status = ''processing'', video_url = JUndefined\<rparr>
      else Inr \<lparr>status = ''completed'', video_url = JStr ''https://heygen.example/raw.mp4''\<rparr>)"

definition never_terminal :: "nat \<Rightarrow> exn + poll_status" where
  "never_terminal i =
     (if even i then Inr \<lparr>status = ''processing'', video_url = JUndefined\<rparr>
      else Inl (PlainError ''socket hang up''))"

text \<open>The runs of the scenarios: the response and the state the request leaves behind.\<close>

definition success_run :: "response \<times> state" where
  "success_run =
     post_generate_video [''key1''] ''./output'' (example_env completed_on_third)
       example_request (example_state 25)"

definition failed_status_run :: "response \<times> state" where
  "failed_status_run =
     post_generate_video [''key1''] ''./output'' (example_env always_failed)
       example_request (example_state 25)"

definition never_terminal_run :: "response \<times> state" where
  "never_terminal_run =
     post_generate_video [''key1''] ''./output'' (example_env never_terminal)
       example_request (example_state 25)"



definition insufficient_run :: "response \<times> state" where
  "insufficient_run =
     post_generate_video [''key1''] ''./output'' (example_env completed_on_third)
       example_request (example_state 10)"


section \<open>Theorems\<close>

subsection \<open>Credential pool\<close>










subsection \<open>The poll loop\<close>

lemma poll_try_not_completed:
  "\<not> completed r \<Longrightarrow> (\<exists>err. poll_try r = Inl err) \<or> poll_try r = Inr Fallthrough"
  by (auto simp: completed_def poll_try_def split: sum.splits)

lemma poll_loop_exhausts:
  "(\<forall>i. attempts \<le> i \<and> i < maxAttempts \<longrightarrow> \<not> completed (status_response e i)) \<Longrightarrow>
   attempts \<le> maxAttempts \<Longrightarrow>
   poll_loop e apiKey videoId attempts s =
     (JNull, maxAttempts, s\<lparr>trace := trace s @ polls (maxAttempts - attempts) apiKey videoId\<rparr>)"
proof (induction e apiKey videoId attempts s rule: poll_loop.induct)
  case (1 e apiKey videoId attempts s)
  show ?case
  proof (cases "attempts < maxAttempts")
    case False
    with "1.prems" have "attempts = maxAttempts" by simp
    then show ?thesis by (subst poll_loop.simps) simp
  next
    case True
    let ?s = "s\<lparr>trace := trace s @ [Wait 5000, HeyGenStatus apiKey videoId]\<rparr>"
    from True "1.prems" have nc: "\<not> completed (status_response e attempts)" by simp
    have rest: "\<forall>i. attempts + 1 \<le> i \<and> i < maxAttempts \<longrightarrow> \<not> completed (status_response e i)"
      using "1.prems" by simp
    have le: "attempts + 1 \<le> maxAttempts" using True by simp
    have sub: "maxAttempts - attempts = Suc (maxAttempts - (attempts + 1))" using True by simp
    from poll_try_not_completed[OF nc] show ?thesis
    proof
      assume "\<exists>err. poll_try (status_response e attempts) = Inl err"
      then obtain err where err: "poll_try (status_response e attempts) = Inl err" ..
      from "1.IH"(1)[OF True err rest le] True err show ?thesis
        by (subst poll_loop.simps) (simp add: sub)
    next
      assume ft: "poll_try (status_response e attempts) = Inr Fallthrough"
      from "1.IH"(2)[OF True ft refl rest le] True ft show ?thesis
        by (subst poll_loop.simps) (simp add: sub)
    qed
  qed
qed


lemma poll_loop_completes:
  "(\<forall>i. attempts \<le> i \<and> i < n \<longrightarrow> \<not> completed (status_response e i)) \<Longrightarrow>
   attempts \<le> n \<Longrightarrow> n < maxAttempts \<Longrightarrow>
   status_response e n = Inr st \<Longrightarrow> status st = ''completed'' \<Longrightarrow>
   poll_loop e apiKey videoId attempts s =
     (video_url st, n, s\<lparr>trace := trace s @ polls (Suc n - attempts) apiKey videoId\<rparr>)"
proof (induction e apiKey videoId attempts s rule: poll_loop.induct)
  case (1 e apiKey videoId attempts s)
  from "1.prems" have lt: "attempts < maxAttempts" by simp
  show ?case
  proof (cases "attempts = n")
    case True
    with "1.prems" lt show ?thesis
      by (subst poll_loop.simps) (simp add: poll_try_def)
  next
    case False
    with "1.prems" have less: "attempts < n" by simp
    then have nc: "\<not> completed (status_response e attempts)" using "1.prems" by simp
    have rest: "\<forall>i. attempts + 1 \<le> i \<and> i < n \<longrightarrow> \<not> completed (status_response e i)"
      using "1.prems" by simp
    have le: "attempts + 1 \<le> n" using less by simp
    have sub: "Suc n - attempts = Suc (Suc n - (attempts + 1))" using less by simp
    from poll_try_not_completed[OF nc] show ?thesis
    proof
      assume "\<exists>err. poll_try (status_response e attempts) = Inl err"
      then obtain err where err: "poll_try (status_response e attempts) = Inl err" ..
      from "1.IH"(1)[OF lt err rest le "1.prems"(3,4,5)] lt err show ?thesis
        by (subst poll_loop.simps) (simp add: sub)
    next
      assume ft: "poll_try (status_response e attempts) = Inr Fallthrough"
      from "1.IH"(2)[OF lt ft refl rest le "1.prems"(3,4,5)] lt ft show ?thesis
        by (subst poll_loop.simps) (simp add: sub)
    qed
  qed
qed

lemma poll_loop_frame:
  "\<exists>n\<le>maxAttempts - attempts. snd (snd (poll_loop e apiKey videoId attempts s)) =
         s\<lparr>trace := trace s @ polls n apiKey videoId\<rparr>"
proof (induction e apiKey videoId attempts s rule: poll_loop.induct)
  case (1 e apiKey videoId attempts s)
  let ?s = "s\<lparr>trace := trace s @ [Wait 5000, HeyGenStatus apiKey videoId]\<rparr>"
  show ?case
  proof (cases "attempts < maxAttempts")
    case False
    then have "snd (snd (poll_loop e apiKey videoId attempts s)) =
        s\<lparr>trace := trace s @ polls 0 apiKey videoId\<rparr>"
      by (subst poll_loop.simps) simp
    then show ?thesis by blast
  next
    case True
    have continue: "\<exists>n\<le>maxAttempts - attempts. snd (snd (poll_loop e apiKey videoId (attempts + 1) ?s)) =
         s\<lparr>trace := trace s @ polls n apiKey videoId\<rparr>"
      if "\<exists>n\<le>maxAttempts - (attempts + 1). snd (snd (poll_loop e apiKey videoId (attempts + 1) ?s)) =
         ?s\<lparr>trace := trace ?s @ polls n apiKey videoId\<rparr>"
    proof -
      from that obtain n where n: "n \<le> maxAttempts - (attempts + 1)"
        "snd (snd (poll_loop e apiKey videoId (attempts + 1) ?s)) =
           ?s\<lparr>trace := trace ?s @ polls n apiKey videoId\<rparr>" by blast
      from n(1) True have "Suc n \<le> maxAttempts - attempts" by simp
      moreover from n(2) have "snd (snd (poll_loop e apiKey videoId (attempts + 1) ?s)) =
          s\<lparr>trace := trace s @ polls (Suc n) apiKey videoId\<rparr>" by simp
      ultimately show ?thesis by blast
    qed
    show ?thesis
    proof (cases "poll_try (status_response e attempts)")
      case (Inl err)
      from continue[OF "1.IH"(1)[OF True Inl]] True Inl show ?thesis
        by (subst poll_loop.simps) simp
    next
      case (Inr step)
      show ?thesis
      proof (cases step)
        case (Break url)
        with True Inr have "snd (snd (poll_loop e apiKey videoId attempts s)) =
          s\<lparr>trace := trace s @ polls (Suc 0) apiKey videoId\<rparr>"
          by (subst poll_loop.simps) simp
        moreover from True have "Suc 0 \<le> maxAttempts - attempts" by simp
        ultimately show ?thesis by blast
      next
        case Fallthrough
        from continue[OF "1.IH"(2)[OF True Inr Fallthrough]] True Inr Fallthrough show ?thesis
          by (subst poll_loop.simps) simp
      qed
    qed
  qed
qed






subsection \<open>The paths through the handler\<close>

lemma scratch_removed: "insert c (insert t F) - {t} - {c} = F - {t} - {c}"
  by auto

lemma pp_cases:
  assumes "process_and_publish od e u params url s = (r, s')"
  obtains
    (download_failed) err where "download_response e = Some err" "r = Inl err"
      "s' = s\<lparr>trace := trace s @ [Download url]\<rparr>"
  | (write_failed) msg left where "write_result e = WriteError msg left" "r = Inl (PlainError msg)"
      "s' = s\<lparr>trace := trace s @ [Download url],
              files := (if left then insert (tempVideoPath od e) (files s) else files s)\<rparr>"
  | (crop_failed) msg left where "ffmpeg_result e = FfmpegError msg left" "r = Inl (PlainError msg)"
      "s' = s\<lparr>trace := trace s @ [Download url, Ffmpeg (tempVideoPath od e) watermark_crop (cleanVideoPath od e)],
              files := (if left then insert (cleanVideoPath od e) (insert (tempVideoPath od e) (files s))
                        else insert (tempVideoPath od e) (files s))\<rparr>"
  | (upload_failed) err where "catbox_response e = Inl err"
      "r = Inl (PlainError ''Failed to upload video to Catbox'')"
      "s' = s\<lparr>trace := trace s @ [Download url, Ffmpeg (tempVideoPath od e) watermark_crop (cleanVideoPath od e),
                                   CatboxUpload (cleanVideoPath od e)],
              files := insert (cleanVideoPath od e) (insert (tempVideoPath od e) (files s))\<rparr>"
  | (store_failed) msg where "videos_set e = Inl msg" "r = Inl (PlainError msg)"
      "s' = s\<lparr>trace := trace s @ [Download url, Ffmpeg (tempVideoPath od e) watermark_crop (cleanVideoPath od e),
                                   CatboxUpload (cleanVideoPath od e)],
              files := insert (cleanVideoPath od e) (insert (tempVideoPath od e) (files s))\<rparr>"
  | (published) storedVideoId catboxUrl doc where
      "videos_set e = Inr storedVideoId" "catbox_response e = Inr catboxUrl"
      "r = Inr (Success storedVideoId catboxUrl)"
      "trace s' = trace s @ [Download url, Ffmpeg (tempVideoPath od e) watermark_crop (cleanVideoPath od e),
                            CatboxUpload (cleanVideoPath od e), UpdateUsage (uid u) ''video'']"
      "files s' = files s - {tempVideoPath od e} - {cleanVideoPath od e}"
      "videos s' = videos s @ [(storedVideoId, doc)]"
      "users s' = updateUsage (serverTimestamp e) (users_update_throws e) (uid u) ''video'' (users s)"
      "keyUsageCount s' = keyUsageCount s"
  using assms
  by (auto simp: process_and_publish_def removeWatermark_def uploadToCatbox_def
                 storeVideoUrl_def Let_def scratch_removed
           split: option.splits write_outcome.splits ffmpeg_outcome.splits sum.splits if_splits prod.splits)


lemma try_body_cases:
  assumes tb: "try_body ks od e u b s = (r, s')"
  obtains
    (invalid) "\<not> truthy (script b) \<or> \<not> truthy (avatar b)" "r = Inr ScriptAndAvatarRequired" "s' = s"
  | (no_key) usage' where "r = Inr NoApiKeysAvailable" "s' = s\<lparr>keyUsageCount := usage'\<rparr>"
  | (submit_failed) err usage' g apiKey where "generate_response e = Inl err" "r = Inl err"
      "\<not> is_video_debit g" "s' = s\<lparr>keyUsageCount := usage', trace := trace s @ [g]\<rparr>"
      "g = generate_event apiKey b"
  | (timeout) usage' g n apiKey videoId where "r = Inr GenerationTimeout" "\<not> is_video_debit g"
      "n \<le> maxAttempts"
      "s' = s\<lparr>keyUsageCount := usage', trace := trace s @ g # polls n apiKey videoId\<rparr>"
      "g = generate_event apiKey b"
  | (polled) usage' g n apiKey videoId params videoUrl where "truthy videoUrl" "\<not> is_video_debit g"
      "process_and_publish od e u params videoUrl
         (s\<lparr>keyUsageCount := usage', trace := trace s @ g # polls n apiKey videoId\<rparr>) = (r, s')"
      "g = generate_event apiKey b"
proof (cases "\<not> truthy (script b) \<or> \<not> truthy (avatar b)")
  case True
  with tb have "r = Inr ScriptAndAvatarRequired" "s' = s" by (auto simp: try_body_def Let_def)
  with True show ?thesis by (rule invalid)
next
  case valid: False
  obtain k usage' where g: "getNextHeyGenKey ks (keyUsageCount s) = (k, usage')"
    by (cases "getNextHeyGenKey ks (keyUsageCount s)")
  show ?thesis
  proof (cases "k = None \<or> k = Some []")
    case True
    with tb valid g have "r = Inr NoApiKeysAvailable" "s' = s\<lparr>keyUsageCount := usage'\<rparr>"
      by (auto simp: try_body_def Let_def)
    then show ?thesis by (rule no_key)
  next
    case False
    then obtain apiKey where k: "k = Some apiKey" "apiKey \<noteq> []" by auto
    define gen where "gen = HeyGenGenerate apiKey
        (select_dimensions (default_to JNull (customDimensions b))
           (default_to (JStr ''landscape'') (orientation b)))
        (avatar b) (script b) (default_to (JStr ''1bd001e7e50f421d891986aad5158bc8'') (voice b))"
    have nd: "\<not> is_video_debit gen" by (simp add: gen_def)
    have ge: "gen = generate_event apiKey b" by (simp add: gen_def generate_event_def)
    let ?s1 = "s\<lparr>keyUsageCount := usage', trace := trace s @ [gen]\<rparr>"
    show ?thesis
    proof (cases "generate_response e")
      case (Inl err)
      with tb valid g k have r: "r = Inl err" and s': "s' = ?s1"
        by (auto simp: try_body_def Let_def gen_def)
      from Inl r nd s' ge show ?thesis by (rule submit_failed)
    next
      case (Inr videoId)
      obtain videoUrl attempts s2 where p: "poll_loop e apiKey videoId 0 ?s1 = (videoUrl, attempts, s2)"
        by (cases "poll_loop e apiKey videoId 0 ?s1") auto
      from poll_loop_frame[of 0 e apiKey videoId ?s1] p obtain n where
        n: "n \<le> maxAttempts"
        and s2: "s2 = s\<lparr>keyUsageCount := usage', trace := trace s @ gen # polls n apiKey videoId\<rparr>"
        by auto
      show ?thesis
      proof (cases "truthy videoUrl")
        case False
        with tb valid g k Inr p have r: "r = Inr GenerationTimeout" and s': "s' = s2"
          by (auto simp: try_body_def Let_def gen_def)
        from r nd n s'[unfolded s2] ge show ?thesis by (rule timeout)
      next
        case True
        with tb valid g k Inr p obtain params where
          pp: "process_and_publish od e u params videoUrl s2 = (r, s')"
          by (auto simp: try_body_def Let_def gen_def)
        from True nd pp[unfolded s2] ge show ?thesis by (rule polled)
      qed
    qed
  qed
qed

subsection \<open>The scenarios, evaluated\<close>

lemma example_env_sel:
  "serverTimestamp (example_env a) = 1000"
  "users_get_throws (example_env a) = False"
  "generate_response (example_env a) = Inr ''vid1''"
  "status_response (example_env a) = a"
  "download_response (example_env a) = None"
  "write_result (example_env a) = WriteFinished"
  "uuid_temp (example_env a) = ''aaaa''"
  "uuid_clean (example_env a) = ''bbbb''"
  "ffmpeg_result (example_env a) = FfmpegEnd"
  "catbox_response (example_env a) = Inr ''https://files.catbox.moe/x.mp4''"
  "videos_set (example_env a) = Inr ''doc1''"
  "users_update_throws (example_env a) = False"
  by (simp_all add: example_env_def)

lemma completed_on_third_poll:
  "status_response e = completed_on_third \<Longrightarrow>
   poll_loop e apiKey videoId 0 s =
     (JStr ''https://heygen.example/raw.mp4'', 2, s\<lparr>trace := trace s @ polls 3 apiKey videoId\<rparr>)"
proof -
  assume a: "status_response e = completed_on_third"
  have "poll_loop e apiKey videoId 0 s =
     (video_url \<lparr>status = ''completed'', video_url = JStr ''https://heygen.example/raw.mp4''\<rparr>, 2,
      s\<lparr>trace := trace s @ polls (Suc 2 - 0) apiKey videoId\<rparr>)"
    by (rule poll_loop_completes)
       (simp_all add: a completed_on_third_def completed_def maxAttempts_def)
  then show ?thesis by (simp add: numeral_3_eq_3)
qed

lemma never_completed_poll:
  "\<forall>i<maxAttempts. \<not> completed (status_response e i) \<Longrightarrow>
   poll_loop e apiKey videoId 0 s =
     (JNull, maxAttempts, s\<lparr>trace := trace s @ polls maxAttempts apiKey videoId\<rparr>)"
  using poll_loop_exhausts[of 0 e apiKey videoId s] by simp

lemma always_failed_poll:
  "status_response e = always_failed \<Longrightarrow>
   poll_loop e apiKey videoId 0 s =
     (JNull, maxAttempts, s\<lparr>trace := trace s @ polls maxAttempts apiKey videoId\<rparr>)"
  by (rule never_completed_poll) (simp add: always_failed_def completed_def)

lemma never_terminal_poll:
  "status_response e = never_terminal \<Longrightarrow>
   poll_loop e apiKey videoId 0 s =
     (JNull, maxAttempts, s\<lparr>trace := trace s @ polls maxAttempts apiKey videoId\<rparr>)"
  by (rule never_completed_poll) (simp add: never_terminal_def completed_def)


lemmas run_defs = post_generate_video_def checkVideoLimits_def generate_video_def try_body_def
  getNextHeyGenKey_def usage_of_def userCredits_def num_def CREDITS_PER_VIDEO_def
  Let_def default_to_def example_request_def example_state_def example_account_def
  process_and_publish_def removeWatermark_def uploadToCatbox_def storeVideoUrl_def
  catch_error_def updateUsage_def increment_def

lemma success_run_response:
  "fst success_run = Success ''doc1'' ''https://files.catbox.moe/x.mp4''"
  by (simp add: success_run_def run_defs example_env_sel completed_on_third_poll)

lemma success_run_users:
  "users (snd success_run) =
     Map.empty(''u1'' \<mapsto> \<lparr>credits = Some 5, creditsUsed = Some 20, videosGenerated = Some 1,
        lastVideoGenerated = Some 1000, scriptsGenerated = None, lastScriptGenerated = None\<rparr>)"
  by (simp add: success_run_def run_defs example_env_sel completed_on_third_poll)

lemma success_run_files: "files (snd success_run) = {}"
  by (auto simp: success_run_def run_defs example_env_sel completed_on_third_poll)

lemma success_run_videos: "length (videos (snd success_run)) = 1"
  by (simp add: success_run_def run_defs example_env_sel completed_on_third_poll)

lemma failed_status_run_eval:
  "failed_status_run =
     (GenerationTimeout,
      (example_state 25)\<lparr>keyUsageCount := Map.empty(''key1'' \<mapsto> 1),
         trace := HeyGenGenerate ''key1'' (dims 1280 720) (JStr ''avatar1'') (JStr ''Hello'')
                    (JStr ''1bd001e7e50f421d891986aad5158bc8'') # polls 60 ''key1'' ''vid1''\<rparr>)"
  by (simp add: failed_status_run_def run_defs example_env_sel always_failed_poll select_dimensions_def maxAttempts_def)

lemma never_terminal_run_eval:
  "never_terminal_run =
     (GenerationTimeout,
      (example_state 25)\<lparr>keyUsageCount := Map.empty(''key1'' \<mapsto> 1),
         trace := HeyGenGenerate ''key1'' (dims 1280 720) (JStr ''avatar1'') (JStr ''Hello'')
                    (JStr ''1bd001e7e50f421d891986aad5158bc8'') # polls 60 ''key1'' ''vid1''\<rparr>)"
  by (simp add: never_terminal_run_def run_defs example_env_sel never_terminal_poll select_dimensions_def maxAttempts_def)



lemma insufficient_run_eval:
  "insufficient_run = (InsufficientCredits 10 20 upgradeOptions, example_state 10)"
  by (simp add: insufficient_run_def run_defs example_env_sel)

subsection \<open>The ledger\<close>

lemma checkVideoLimits_not_success: "checkVideoLimits e req s = Inl res \<Longrightarrow> \<not> is_success res"
  by (auto simp: checkVideoLimits_def split: option.splits if_splits)

lemma catch_error_not_success: "\<not> is_success (catch_error err)"
  by (cases err) (simp_all add: catch_error_def)

lemma generate_video_try:
  assumes "generate_video ks od e u b s = (res, s')"
  obtains r where "try_body ks od e u b s = (r, s')"
    "res = (case r of Inl err \<Rightarrow> catch_error err | Inr res' \<Rightarrow> res')"
  using assms by (auto simp: generate_video_def split: prod.splits sum.splits)



lemma catch_error_not_insufficient: "\<not> is_insufficient (catch_error err)"
  by (cases err) (simp_all add: catch_error_def)

lemma catch_error_internal: "is_internal_error (catch_error err) \<longleftrightarrow> (\<exists>msg. err = PlainError msg)"
  by (cases err) (simp_all add: catch_error_def)

lemma generate_video_not_insufficient:
  assumes "generate_video ks od e u b s = (res, s')"
  shows "\<not> is_insufficient res"
proof -
  from assms obtain r where tb: "try_body ks od e u b s = (r, s')"
    and res: "res = (case r of Inl err \<Rightarrow> catch_error err | Inr res' \<Rightarrow> res')"
    by (rule generate_video_try)
  from tb show ?thesis
  proof (cases rule: try_body_cases)
    case (polled usage' g n apiKey videoId params videoUrl)
    from polled(3) res show ?thesis
      by (cases rule: pp_cases) (simp_all add: catch_error_not_insufficient)
  qed (simp_all add: res catch_error_not_insufficient)
qed

subsection \<open>Scratch files\<close>




subsection \<open>Preflight\<close>

text \<open>
  C7. The route answers with the insufficient-credits response exactly when the request
  is authenticated, the balance can be read and it is below 20; the response then
  carries the balance, the 20 credits needed and the purchase options, and the state is
  the one before the request: no counter of the key pool moved, no event recorded, no
  video document written, the users collection untouched.
\<close>

theorem insufficient_credits_iff_below_cost:
  "(is_insufficient (fst (post_generate_video HEYGEN_KEYS outputDir e req s)) \<longleftrightarrow>
      (\<exists>u. user req = Some u \<and> \<not> users_get_throws e \<and> userCredits (users s) (uid u) < 20))
   \<and> (user req = Some u \<and> \<not> users_get_throws e \<and> userCredits (users s) (uid u) < 20 \<longrightarrow>
        post_generate_video HEYGEN_KEYS outputDir e req s =
          (InsufficientCredits (userCredits (users s) (uid u)) 20 upgradeOptions, s))"
proof (cases "checkVideoLimits e req s")
  case (Inl rejected)
  then have "post_generate_video HEYGEN_KEYS outputDir e req s = (rejected, s)"
    by (simp add: post_generate_video_def)
  with Inl show ?thesis
    by (auto simp: checkVideoLimits_def CREDITS_PER_VIDEO_def split: option.splits if_splits)
next
  case (Inr u')
  then have g: "post_generate_video HEYGEN_KEYS outputDir e req s =
      generate_video HEYGEN_KEYS outputDir e u' (body req) s"
    by (simp add: post_generate_video_def)
  have "\<not> is_insufficient (fst (generate_video HEYGEN_KEYS outputDir e u' (body req) s))"
    using generate_video_not_insufficient[of HEYGEN_KEYS outputDir e u' "body req" s]
    by (cases "generate_video HEYGEN_KEYS outputDir e u' (body req) s") simp
  with g Inr show ?thesis
    by (auto simp: checkVideoLimits_def CREDITS_PER_VIDEO_def split: option.splits if_splits)
qed

theorem insufficient_credits_iff_below_cost_witness:
  "insufficient_run = (InsufficientCredits 10 20 upgradeOptions, example_state 10)
   \<and> \<not> is_insufficient (fst success_run)"
proof -
  let ?u = "\<lparr>uid = ''u1'', email = ''u1@example.com''\<rparr>"
  let ?e = "example_env completed_on_third"
  have u: "user example_request = Some ?u" by (simp add: example_request_def)
  have c10: "userCredits (users (example_state 10)) (uid ?u) = 10"
    and c25: "userCredits (users (example_state 25)) (uid ?u) = 25"
    by (simp_all add: userCredits_def example_state_def example_account_def num_def)
  from insufficient_credits_iff_below_cost[of "[''key1'']" "''./output''" ?e example_request
      "example_state 10" ?u] u c10
  have "insufficient_run = (InsufficientCredits 10 20 upgradeOptions, example_state 10)"
    by (simp add: insufficient_run_def example_env_sel)
  moreover
  from insufficient_credits_iff_below_cost[of "[''key1'']" "''./output''" ?e example_request
      "example_state 25" ?u] u c25
  have "\<not> is_insufficient (fst success_run)"
    by (simp add: success_run_def example_env_sel)
  ultimately show ?thesis by simp
qed

lemma checkVideoLimits_next:
  "checkVideoLimits e req s = Inr u \<Longrightarrow>
   user req = Some u \<and> (\<exists>a. users s (uid u) = Some a \<and> 20 \<le> num (credits a))"
  by (auto simp: checkVideoLimits_def userCredits_def CREDITS_PER_VIDEO_def
           split: option.splits if_splits)

text \<open>
  C8. In a run that answers with success (the store accepting the update) the account
  of the requesting user ends with its credits lower by 20, its \<open>creditsUsed\<close> higher
  by 20 and its \<open>videosGenerated\<close> higher by 1, a missing field counting as 0;
  \<open>lastVideoGenerated\<close> is set to the server's time in the same update. Exactly one
  document is added to the \<open>videos\<close> collection. The witness is the account with 25
  credits whose job completes on the third poll: it ends with 5.
\<close>

theorem commit_changes_account:
  assumes run: "post_generate_video HEYGEN_KEYS outputDir e req s = (res, s')"
    and succ: "is_success res"
    and upd: "\<not> users_update_throws e"
  shows "\<exists>u a storedVideoId doc.
           user req = Some u \<and> users s (uid u) = Some a
         \<and> users s' = (users s)(uid u \<mapsto> a\<lparr>
               credits := Some (num (credits a) - 20),
               creditsUsed := Some (num (creditsUsed a) + 20),
               videosGenerated := Some (num (videosGenerated a) + 1),
               lastVideoGenerated := Some (serverTimestamp e)\<rparr>)
         \<and> videos s' = videos s @ [(storedVideoId, doc)]"
proof (cases "checkVideoLimits e req s")
  case (Inl rejected)
  with run have "res = rejected" by (simp add: post_generate_video_def)
  with Inl succ show ?thesis by (simp add: checkVideoLimits_not_success)
next
  case (Inr u)
  from checkVideoLimits_next[OF Inr] obtain a where
    u: "user req = Some u" and a: "users s (uid u) = Some a" by blast
  from Inr run have "generate_video HEYGEN_KEYS outputDir e u (body req) s = (res, s')"
    by (simp add: post_generate_video_def)
  then obtain r where tb: "try_body HEYGEN_KEYS outputDir e u (body req) s = (r, s')"
    and res: "res = (case r of Inl err \<Rightarrow> catch_error err | Inr res' \<Rightarrow> res')"
    by (rule generate_video_try)
  from tb show ?thesis
  proof (cases rule: try_body_cases)
    case (polled usage' g n apiKey videoId params videoUrl)
    from polled(3) show ?thesis
    proof (cases rule: pp_cases)
      case (published storedVideoId catboxUrl doc)
      from published(7) a upd have "users s' = (users s)(uid u \<mapsto> a\<lparr>
               credits := Some (num (credits a) - 20),
               creditsUsed := Some (num (creditsUsed a) + 20),
               videosGenerated := Some (num (videosGenerated a) + 1),
               lastVideoGenerated := Some (serverTimestamp e)\<rparr>)"
        by (simp add: updateUsage_def increment_def CREDITS_PER_VIDEO_def)
      moreover from published(6) have "videos s' = videos s @ [(storedVideoId, doc)]" by simp
      ultimately show ?thesis using u a by blast
    qed (use res succ in \<open>simp_all add: catch_error_not_success\<close>)
  qed (use res succ in \<open>simp_all add: catch_error_not_success\<close>)
qed

theorem commit_changes_account_witness:
  "is_success (fst success_run)
   \<and> users (example_state 25) ''u1'' = Some (example_account 25)
   \<and> users (snd success_run) ''u1'' =
       Some \<lparr>credits = Some 5, creditsUsed = Some 20, videosGenerated = Some 1,
             lastVideoGenerated = Some 1000, scriptsGenerated = None, lastScriptGenerated = None\<rparr>
   \<and> length (videos (snd success_run)) = 1"
proof -
  let ?e = "example_env completed_on_third"
  have a: "post_generate_video [''key1''] ''./output'' ?e example_request (example_state 25)
             = (fst success_run, snd success_run)"
    by (simp add: success_run_def)
  have b: "is_success (fst success_run)" by (simp add: success_run_response)
  have c: "\<not> users_update_throws ?e" by (simp add: example_env_sel)
  from commit_changes_account[OF a b c] obtain u acc storedVideoId doc where
    u: "user example_request = Some u" and acc: "users (example_state 25) (uid u) = Some acc"
    and us: "users (snd success_run) = (users (example_state 25))(uid u \<mapsto> acc\<lparr>
               credits := Some (num (credits acc) - 20),
               creditsUsed := Some (num (creditsUsed acc) + 20),
               videosGenerated := Some (num (videosGenerated acc) + 1),
               lastVideoGenerated := Some (serverTimestamp ?e)\<rparr>)"
    and vs: "videos (snd success_run) = videos (example_state 25) @ [(storedVideoId, doc)]"
    by blast
  from u have uid: "uid u = ''u1''" by (auto simp: example_request_def)
  from acc uid have acc': "acc = example_account 25" by (simp add: example_state_def)
  from us uid acc' vs b show ?thesis
    by (simp add: example_state_def example_account_def num_def example_env_sel)
qed


subsection \<open>The poll loop, in a run\<close>

lemma polls_replicate:
  "polls n apiKey videoId = concat (replicate n [Wait 5000, HeyGenStatus apiKey videoId])"
  by (induction n) simp_all

lemma terminal_completed: "\<not> terminal r \<Longrightarrow> \<not> completed r"
  by (auto simp: terminal_def completed_def split: sum.splits)

text \<open>
  C6. When none of the first 60 status answers is terminal (each is another status or
  a failed query), the loop waits 5000 ms and queries 60 times, leaves with
  \<open>attempts = 60\<close> and no URL, and the route answers with the timeout. A query that
  fails moves the loop from attempt \<open>a\<close> to attempt \<open>a + 1\<close> like any other
  iteration. The loop is a total function: it returns for every sequence of answers.
\<close>

theorem poll_timeout_after_sixty_attempts:
  assumes pre: "checkVideoLimits e req s = Inr u"
    and valid: "truthy (script (body req))" "truthy (avatar (body req))"
    and key: "getNextHeyGenKey HEYGEN_KEYS (keyUsageCount s) = (Some apiKey, usage')" "apiKey \<noteq> []"
    and sub: "generate_response e = Inr videoId"
    and nt: "\<forall>i<60. \<not> terminal (status_response e i)"
  shows "post_generate_video HEYGEN_KEYS outputDir e req s =
           (GenerationTimeout,
            s\<lparr>keyUsageCount := usage',
              trace := trace s @ generate_event apiKey (body req) # polls 60 apiKey videoId\<rparr>)
       \<and> poll_loop e apiKey videoId 0 s0 =
           (JNull, 60, s0\<lparr>trace := trace s0 @ polls 60 apiKey videoId\<rparr>)
       \<and> polls 60 apiKey videoId = concat (replicate 60 [Wait 5000, HeyGenStatus apiKey videoId])
       \<and> (\<forall>a err. a < 60 \<and> status_response e a = Inl err \<longrightarrow>
             poll_loop e apiKey videoId a s0 =
               poll_loop e apiKey videoId (a + 1)
                 (s0\<lparr>trace := trace s0 @ [Wait 5000, HeyGenStatus apiKey videoId]\<rparr>))"
proof -
  have nc: "\<forall>i<maxAttempts. \<not> completed (status_response e i)"
    using nt by (simp add: maxAttempts_def terminal_completed)
  have loop: "poll_loop e apiKey videoId 0 s1 =
           (JNull, 60, s1\<lparr>trace := trace s1 @ polls 60 apiKey videoId\<rparr>)" for s1
    using never_completed_poll[OF nc] by (simp add: maxAttempts_def)
  have "post_generate_video HEYGEN_KEYS outputDir e req s =
           (GenerationTimeout,
            s\<lparr>keyUsageCount := usage',
              trace := trace s @ generate_event apiKey (body req) # polls 60 apiKey videoId\<rparr>)"
    using pre valid key sub
    by (simp add: post_generate_video_def generate_video_def try_body_def Let_def loop
          generate_event_def)
  moreover have "\<forall>a err. a < 60 \<and> status_response e a = Inl err \<longrightarrow>
             poll_loop e apiKey videoId a s0 =
               poll_loop e apiKey videoId (a + 1)
                 (s0\<lparr>trace := trace s0 @ [Wait 5000, HeyGenStatus apiKey videoId]\<rparr>)"
  proof (intro allI impI)
    fix a err assume "a < 60 \<and> status_response e a = Inl err"
    then show "poll_loop e apiKey videoId a s0 =
               poll_loop e apiKey videoId (a + 1)
                 (s0\<lparr>trace := trace s0 @ [Wait 5000, HeyGenStatus apiKey videoId]\<rparr>)"
      by (subst poll_loop.simps) (simp add: maxAttempts_def poll_try_def)
  qed
  ultimately show ?thesis using loop polls_replicate by blast
qed

theorem poll_timeout_after_sixty_attempts_witness:
  "never_terminal_run =
     (GenerationTimeout,
      (example_state 25)\<lparr>keyUsageCount := Map.empty(''key1'' \<mapsto> 1),
         trace := generate_event ''key1'' (body example_request) # polls 60 ''key1'' ''vid1''\<rparr>)
   \<and> status_response (example_env never_terminal) 0 = Inr \<lparr>status = ''processing'', video_url = JUndefined\<rparr>
   \<and> status_response (example_env never_terminal) 1 = Inl (PlainError ''socket hang up'')"
proof -
  let ?e = "example_env never_terminal"
  let ?u = "\<lparr>uid = ''u1'', email = ''u1@example.com''\<rparr>"
  have pre: "checkVideoLimits ?e example_request (example_state 25) = Inr ?u"
    by (simp add: checkVideoLimits_def example_request_def example_state_def example_env_sel
          userCredits_def example_account_def num_def CREDITS_PER_VIDEO_def)
  have valid: "truthy (script (body example_request))" "truthy (avatar (body example_request))"
    by (simp_all add: example_request_def)
  have key: "getNextHeyGenKey [''key1''] (keyUsageCount (example_state 25)) =
      (Some ''key1'', Map.empty(''key1'' \<mapsto> 1))" "''key1'' \<noteq> []"
    by (simp_all add: getNextHeyGenKey_def example_state_def usage_of_def)
  have sub: "generate_response ?e = Inr ''vid1''" by (simp add: example_env_sel)
  have nt: "\<forall>i<60. \<not> terminal (status_response ?e i)"
    by (simp add: example_env_sel never_terminal_def terminal_def)
  from poll_timeout_after_sixty_attempts[OF pre valid key sub nt, of "''./output''"]
  show ?thesis
    by (simp add: never_terminal_run_def example_state_def example_env_sel never_terminal_def)
qed

text \<open>
  C1 does not hold of the code. The \<open>throw\<close> for the status \<open>failed\<close> sits inside
  the \<open>try\<close> of the loop, so \<open>catch (pollError)\<close> swallows it: with a provider that
  answers \<open>failed\<close> from the first poll on, the run polls 60 times and answers with
  the timeout. The credits are unchanged, as claimed.
\<close>

theorem failed_status_is_polled_until_timeout:
  "status_response (example_env always_failed) 0 = Inr \<lparr>status = ''failed'', video_url = JUndefined\<rparr>
   \<and> fst failed_status_run = GenerationTimeout
   \<and> trace (snd failed_status_run) =
       generate_event ''key1'' (body example_request) # polls 60 ''key1'' ''vid1''
   \<and> users (snd failed_status_run) = users (example_state 25)"
  by (simp add: failed_status_run_eval example_env_sel always_failed_def generate_event_def
        example_request_def default_to_def select_dimensions_def example_state_def)

subsection \<open>Dimensions\<close>

lemma submitted_dimensions_append:
  "submitted_dimensions (xs @ ys) = submitted_dimensions xs @ submitted_dimensions ys"
  by (induction xs rule: submitted_dimensions.induct) simp_all

lemma submitted_dimensions_polls: "submitted_dimensions (polls n apiKey videoId) = []"
  by (induction n) simp_all

lemma submitted_dimensions_generate:
  "submitted_dimensions (generate_event apiKey b # tr) =
     select_dimensions (default_to JNull (customDimensions b))
       (default_to (JStr ''landscape'') (orientation b)) # submitted_dimensions tr"
  by (simp add: generate_event_def)

lemmas submitted_simps = submitted_dimensions_append submitted_dimensions_polls
  submitted_dimensions_generate

lemma run_submitted_dimensions:
  assumes run: "post_generate_video ks od e req s = (res, s')"
  shows "submitted_dimensions (trace s') = submitted_dimensions (trace s)
       \<or> submitted_dimensions (trace s') = submitted_dimensions (trace s) @
            [select_dimensions (default_to JNull (customDimensions (body req)))
               (default_to (JStr ''landscape'') (orientation (body req)))]"
proof (cases "checkVideoLimits e req s")
  case (Inl rejected)
  with run have "s' = s" by (simp add: post_generate_video_def)
  then show ?thesis by simp
next
  case (Inr u)
  with run have "generate_video ks od e u (body req) s = (res, s')"
    by (simp add: post_generate_video_def)
  then obtain r where tb: "try_body ks od e u (body req) s = (r, s')"
    by (rule generate_video_try)
  from tb show ?thesis
  proof (cases rule: try_body_cases)
    case (polled usage' g n apiKey videoId params videoUrl)
    from polled(3) show ?thesis
      by (cases rule: pp_cases) (simp_all add: polled(4) submitted_simps)
  qed (simp_all add: submitted_simps)
qed

lemma pp_response_params:
  "fst (process_and_publish od e u p1 url s) = fst (process_and_publish od e u p2 url s)"
  by (auto simp: process_and_publish_def removeWatermark_def uploadToCatbox_def
                 storeVideoUrl_def Let_def
           split: option.splits write_outcome.splits ffmpeg_outcome.splits sum.splits prod.splits)

lemma try_body_orientation:
  assumes d: "select_dimensions (default_to JNull (customDimensions b)) (default_to (JStr ''landscape'') o1)
            = select_dimensions (default_to JNull (customDimensions b)) (default_to (JStr ''landscape'') o2)"
  shows "fst (try_body ks od e u (b\<lparr>orientation := o1\<rparr>) s)
       = fst (try_body ks od e u (b\<lparr>orientation := o2\<rparr>) s)"
proof (cases "\<not> truthy (script b) \<or> \<not> truthy (avatar b)")
  case True
  then show ?thesis by (auto simp: try_body_def Let_def)
next
  case valid: False
  obtain k usage' where g: "getNextHeyGenKey ks (keyUsageCount s) = (k, usage')"
    by (cases "getNextHeyGenKey ks (keyUsageCount s)")
  show ?thesis
  proof (cases "k = None \<or> k = Some []")
    case True
    with valid g show ?thesis by (auto simp: try_body_def Let_def)
  next
    case False
    then obtain apiKey where k: "k = Some apiKey" "apiKey \<noteq> []" by auto
    show ?thesis
    proof (cases "generate_response e")
      case (Inl err)
      with valid g k show ?thesis by (simp add: try_body_def Let_def)
    next
      case (Inr videoId)
      let ?s1 = "s\<lparr>keyUsageCount := usage',
                   trace := trace s @ [generate_event apiKey (b\<lparr>orientation := o2\<rparr>)]\<rparr>"
      have same: "generate_event apiKey (b\<lparr>orientation := o1\<rparr>) = generate_event apiKey (b\<lparr>orientation := o2\<rparr>)"
        using d by (simp add: generate_event_def)
      obtain videoUrl attempts s2 where p: "poll_loop e apiKey videoId 0 ?s1 = (videoUrl, attempts, s2)"
        by (cases "poll_loop e apiKey videoId 0 ?s1") auto
      have p1: "poll_loop e apiKey videoId 0
          (s\<lparr>keyUsageCount := usage',
              trace := trace s @ [generate_event apiKey (b\<lparr>orientation := o1\<rparr>)]\<rparr>) = (videoUrl, attempts, s2)"
        using p same by simp
      show ?thesis
      proof (cases "truthy videoUrl")
        case False
        with valid g k Inr p p1 show ?thesis
          by (simp add: try_body_def Let_def generate_event_def)
      next
        case True
        with valid g k Inr p p1 show ?thesis
          by (auto simp: try_body_def Let_def generate_event_def intro!: pp_response_params)
      qed
    qed
  qed
qed

lemma generate_video_fst:
  "fst (generate_video ks od e u b s) =
     (case fst (try_body ks od e u b s) of Inl err \<Rightarrow> catch_error err | Inr res \<Rightarrow> res)"
  by (simp add: generate_video_def split: prod.splits sum.splits)


lemma post_generate_video_orientation:
  assumes d: "select_dimensions (default_to JNull (customDimensions (body req))) (default_to (JStr ''landscape'') o1)
            = select_dimensions (default_to JNull (customDimensions (body req))) (default_to (JStr ''landscape'') o2)"
  shows "fst (post_generate_video ks od e (req\<lparr>body := (body req)\<lparr>orientation := o1\<rparr>\<rparr>) s)
       = fst (post_generate_video ks od e (req\<lparr>body := (body req)\<lparr>orientation := o2\<rparr>\<rparr>) s)"
proof -
  have c: "checkVideoLimits e (req\<lparr>body := b'\<rparr>) s = checkVideoLimits e req s" for b'
    by (simp add: checkVideoLimits_def)
  show ?thesis
    by (cases "checkVideoLimits e req s")
       (simp_all add: post_generate_video_def c generate_video_fst try_body_orientation[OF d])
qed

text \<open>
  C10. For a request without custom dimensions whose orientation is neither
  \<open>portrait\<close> nor \<open>square\<close> (another string, another kind of value, or none at
  all) the dimensions are 1280 x 720, a submission the run makes carries them, and the
  response is the one the same request gets with the orientation \<open>landscape\<close>: no
  response depends on the orientation being a known one.
\<close>

theorem other_orientations_use_landscape:
  assumes nocd: "\<not> truthy (customDimensions (body req))"
    and ori: "ori \<noteq> JStr ''portrait''" "ori \<noteq> JStr ''square''"
  shows "select_dimensions (default_to JNull (customDimensions (body req)))
           (default_to (JStr ''landscape'') ori) = dims 1280 720
       \<and> fst (post_generate_video HEYGEN_KEYS outputDir e (req\<lparr>body := (body req)\<lparr>orientation := ori\<rparr>\<rparr>) s)
         = fst (post_generate_video HEYGEN_KEYS outputDir e
                  (req\<lparr>body := (body req)\<lparr>orientation := JStr ''landscape''\<rparr>\<rparr>) s)
       \<and> set (submitted_dimensions (trace (snd
              (post_generate_video HEYGEN_KEYS outputDir e (req\<lparr>body := (body req)\<lparr>orientation := ori\<rparr>\<rparr>) s))))
           \<subseteq> set (submitted_dimensions (trace s)) \<union> {dims 1280 720}"
proof -
  let ?cd = "default_to JNull (customDimensions (body req))"
  have f: "\<not> truthy ?cd" using nocd by (simp add: default_to_def)
  have a: "select_dimensions ?cd (default_to (JStr ''landscape'') ori) = dims 1280 720"
    using f ori by (simp add: select_dimensions_def default_to_def)
  have b: "select_dimensions ?cd (default_to (JStr ''landscape'') (JStr ''landscape'')) = dims 1280 720"
    using f by (simp add: select_dimensions_def default_to_def)
  let ?req = "req\<lparr>body := (body req)\<lparr>orientation := ori\<rparr>\<rparr>"
  obtain res s' where run: "post_generate_video HEYGEN_KEYS outputDir e ?req s = (res, s')"
    by (cases "post_generate_video HEYGEN_KEYS outputDir e ?req s")
  from run_submitted_dimensions[OF run] a
  have "set (submitted_dimensions (trace s')) \<subseteq> set (submitted_dimensions (trace s)) \<union> {dims 1280 720}"
    by auto
  moreover have "fst (post_generate_video HEYGEN_KEYS outputDir e ?req s)
         = fst (post_generate_video HEYGEN_KEYS outputDir e
                  (req\<lparr>body := (body req)\<lparr>orientation := JStr ''landscape''\<rparr>\<rparr>) s)"
    by (rule post_generate_video_orientation) (simp only: a b)
  ultimately show ?thesis using run a by simp
qed

theorem other_orientations_use_landscape_witness:
  "fst (post_generate_video [''key1''] ''./output'' (example_env completed_on_third)
          (example_request\<lparr>body := (body example_request)\<lparr>orientation := JStr ''custom''\<rparr>\<rparr>)
          (example_state 25))
     = Success ''doc1'' ''https://files.catbox.moe/x.mp4''
   \<and> select_dimensions (default_to JNull (customDimensions (body example_request)))
           (default_to (JStr ''landscape'') (JStr ''custom'')) = dims 1280 720"
proof -
  have nocd: "\<not> truthy (customDimensions (body example_request))"
    by (simp add: example_request_def)
  have ori: "JStr ''custom'' \<noteq> JStr ''portrait''" "JStr ''custom'' \<noteq> JStr ''square''"
    by simp_all
  have l: "fst (post_generate_video [''key1''] ''./output'' (example_env completed_on_third)
          (example_request\<lparr>body := (body example_request)\<lparr>orientation := JStr ''landscape''\<rparr>\<rparr>)
          (example_state 25)) = Success ''doc1'' ''https://files.catbox.moe/x.mp4''"
    by (simp add: run_defs example_env_sel completed_on_third_poll)
  from other_orientations_use_landscape[OF nocd ori, of "[''key1'']" "''./output''"
      "example_env completed_on_third" "example_state 25"] l
  show ?thesis by simp
qed

text \<open>
  C5. The orientation table used for the submission is landscape 1280 x 720, portrait
  720 x 1280, square 1080 x 1080, and custom dimensions supplied in the request (any
  object, indeed any truthy value) are used verbatim whatever the orientation is. A run
  of the route submits at most once, and the dimensions it submits are the ones selected
  in this way from the request.
\<close>

theorem dimension_table_and_override:
  "(\<not> truthy cd \<longrightarrow>
      select_dimensions cd (JStr ''landscape'') = dims 1280 720
    \<and> select_dimensions cd (JStr ''portrait'') = dims 720 1280
    \<and> select_dimensions cd (JStr ''square'') = dims 1080 1080)
   \<and> select_dimensions (JObj fs) ori = JObj fs
   \<and> (truthy cd \<longrightarrow> select_dimensions cd ori = cd)
   \<and> (submitted_dimensions (trace (snd (post_generate_video HEYGEN_KEYS outputDir e req s)))
         = submitted_dimensions (trace s)
      \<or> submitted_dimensions (trace (snd (post_generate_video HEYGEN_KEYS outputDir e req s)))
         = submitted_dimensions (trace s) @
            [select_dimensions (default_to JNull (customDimensions (body req)))
               (default_to (JStr ''landscape'') (orientation (body req)))])"
proof -
  obtain res s' where run: "post_generate_video HEYGEN_KEYS outputDir e req s = (res, s')"
    by (cases "post_generate_video HEYGEN_KEYS outputDir e req s")
  from run_submitted_dimensions[OF run] run show ?thesis
    by (simp add: select_dimensions_def)
qed

lemma success_run_submitted: "submitted_dimensions (trace (snd success_run)) = [dims 1280 720]"
  by (simp add: success_run_def run_defs example_env_sel completed_on_third_poll
        submitted_simps select_dimensions_def numeral_3_eq_3)

theorem dimension_table_and_override_witness:
  "select_dimensions JNull (JStr ''landscape'') = dims 1280 720
   \<and> select_dimensions JNull (JStr ''portrait'') = dims 720 1280
   \<and> select_dimensions JNull (JStr ''square'') = dims 1080 1080
   \<and> select_dimensions (dims 640 360) (JStr ''portrait'') = dims 640 360
   \<and> submitted_dimensions (trace (snd success_run)) = [dims 1280 720]"
  using dimension_table_and_override [of JNull "[(''width'', JNum 640), (''height'', JNum 360)]"
      "JStr ''portrait''" "[''key1'']" "''./output''" "example_env completed_on_third"
      example_request "example_state 25"] success_run_submitted
  by (simp add: dims_def)

subsection \<open>The watermark crop\<close>



end
